theory Spec2Isabelle
  imports Main "HOL-Library.Sublist" "HOL-Library.Word"
begin

unbundle bit_operations_syntax

section \<open>RWA Sentinel Protocol: the legal oracle of \<open>ai-legal-core/main.py\<close>\<close>

subsection \<open>Python values\<close>

text \<open>
  A Python \<open>str\<close> is a sequence of Unicode code points, so it is a list of naturals here
  (an Isabelle \<open>char\<close> has eight bits only). \<open>ascii\<close> turns a literal of the theory into
  such a string; code points above 127 are written as numbers.
\<close>

type_synonym pystr = "nat list"

type_synonym byte = "8 word"

definition ascii :: "string \<Rightarrow> pystr" where
  "ascii s = map of_char s"

text \<open>
  What \<open>json.loads\<close> returns and what the endpoint sends back: \<open>None\<close>, \<open>bool\<close>,
  \<open>int\<close>, \<open>float\<close> (its 64 bits, never inspected), \<open>str\<close>, \<open>list\<close> and \<open>dict\<close> (the
  items in insertion order; a key is looked up with \<open>map_of\<close>).
\<close>

datatype json =
    JNull
  | JBool bool
  | JInt int
  | JFloat "64 word"
  | JStr pystr
  | JArr "json list"
  | JObj "(pystr \<times> json) list"

text \<open>An exception: its class and the text \<open>str(e)\<close> gives.\<close>

datatype exn = Exn (exn_class: string) (exn_str: pystr)

subsection \<open>String methods\<close>

text \<open>
  \<open>str.isspace\<close> of one code point, as CPython's \<open>_PyUnicode_IsWhitespace\<close> lists them.
\<close>

definition py_isspace :: "nat \<Rightarrow> bool" where
  "py_isspace c \<longleftrightarrow>
     (9 \<le> c \<and> c \<le> 13) \<or> (28 \<le> c \<and> c \<le> 32) \<or> c = 133 \<or> c = 160 \<or> c = 5760 \<or>
     (8192 \<le> c \<and> c \<le> 8202) \<or> c = 8232 \<or> c = 8233 \<or> c = 8239 \<or> c = 8287 \<or>
     c = 12288"

text \<open>\<open>s.strip()\<close>: white space removed at both ends.\<close>

definition py_strip :: "pystr \<Rightarrow> pystr" where
  "py_strip s = rev (dropWhile py_isspace (rev (dropWhile py_isspace s)))"

text \<open>\<open>s.startswith(p)\<close>.\<close>

definition py_startswith :: "pystr \<Rightarrow> pystr \<Rightarrow> bool" where
  "py_startswith s p = prefix p s"

text \<open>\<open>needle in hay\<close> on strings: a contiguous occurrence.\<close>

definition py_in :: "pystr \<Rightarrow> pystr \<Rightarrow> bool" where
  "py_in needle hay = sublist needle hay"

text \<open>
  \<open>s.split(sep)\<close> for a separator of one code point: always at least one piece.
\<close>

fun py_split :: "nat \<Rightarrow> pystr \<Rightarrow> pystr list" where
  "py_split sep [] = [[]]"
| "py_split sep (c # cs) =
     (if c = sep then [] # py_split sep cs
      else (case py_split sep cs of
              [] \<Rightarrow> [[c]]
            | l # ls \<Rightarrow> (c # l) # ls))"

text \<open>\<open>sep.join(pieces)\<close> for a separator of one code point.\<close>

fun py_join :: "nat \<Rightarrow> pystr list \<Rightarrow> pystr" where
  "py_join sep [] = []"
| "py_join sep [l] = l"
| "py_join sep (l # l' # ls) = l @ sep # py_join sep (l' # ls)"

text \<open>\<open>d.get(key)\<close>: \<open>None\<close> for a missing key; only a \<open>dict\<close> has the method.\<close>

definition py_get :: "json \<Rightarrow> pystr \<Rightarrow> exn + json" where
  "py_get d k =
     (case d of
        JObj kv \<Rightarrow> Inr (case map_of kv k of None \<Rightarrow> JNull | Some v \<Rightarrow> v)
      | _ \<Rightarrow> Inl (Exn ''AttributeError'' (ascii ''object has no attribute get'')))"

subsection \<open>The libraries and the environment\<close>

text \<open>
  The functions the module calls and does not define are parameters:
  \<^item> \<open>str_lower\<close>: \<open>str.lower\<close> (the Unicode case mapping);
  \<^item> \<open>encode_defunct\<close>, \<open>recover_message\<close>: \<open>eth_account\<close>'s EIP-191 encoding of a text
    and the recovery of the signing address, each of which may raise;
  \<^item> \<open>OPENAI_API_KEY\<close>: what \<open>os.getenv("OPENAI_API_KEY")\<close> returns;
  \<^item> \<open>chat_create\<close>: the import of \<open>openai\<close>, the construction of the client with the
    key and the awaited \<open>client.chat.completions.create\<close> with model \<open>gpt-4\<close>,
    temperature 0.2 and the given messages (role, content); it raises or returns the
    \<open>message.content\<close> of every choice of the response;
  \<^item> \<open>json_loads\<close>: \<open>json.loads\<close>;
  \<^item> \<open>sha256\<close>: the digest \<open>hashlib.sha256\<close> computes of a byte string.
\<close>

record 'enc pylib =
  str_lower :: "pystr \<Rightarrow> pystr"
  encode_defunct :: "pystr \<Rightarrow> exn + 'enc"
  recover_message :: "'enc \<Rightarrow> pystr \<Rightarrow> exn + pystr"
  OPENAI_API_KEY :: "pystr option"
  chat_create :: "pystr \<Rightarrow> (pystr \<times> pystr) list \<Rightarrow> exn + pystr option list"
  json_loads :: "pystr \<Rightarrow> exn + json"
  sha256 :: "byte list \<Rightarrow> byte list"

text \<open>The calls a test would spy on, in the order they are made.\<close>

datatype event =
    Call_verify_signature pystr pystr pystr
  | Call_analyze_legal_document pystr
  | Call_chat_create pystr "(pystr \<times> pystr) list"

subsection \<open>Document analysis\<close>

definition RWA_AUDITOR_SYSTEM_PROMPT :: pystr where
  "RWA_AUDITOR_SYSTEM_PROMPT =
     ascii ''Eres un auditor legal especializado en Activos del Mundo Real (RWA) bajo el Modelo 4 de liquidez.'' @
     [10] @
     ascii ''Analiza el texto del contrato legal y responde '' @
     [218] @
     ascii ''NICAMENTE con un JSON v'' @
     [225] @
     ascii ''lido, sin markdown ni texto extra.'' @
     [10] @
     ascii ''Formato obligatorio: {'' @
     [34] @
     ascii ''approved'' @
     [34] @
     ascii '': true|false, '' @
     [34] @
     ascii ''risk_score'' @
     [34] @
     ascii '': n'' @
     [250] @
     ascii ''mero del 1 al 10 si approved es true}'' @
     [10] @
     ascii ''- approved: true solo si el documento es adecuado para tokenizaci'' @
     [243] @
     ascii ''n (cl'' @
     [225] @
     ascii ''usulas de redenci'' @
     [243] @
     ascii ''n, colateral y cumplimiento normativo claros).'' @
     [10] @
     ascii ''- risk_score: 1 = m'' @
     [237] @
     ascii ''nimo riesgo, 10 = m'' @
     [225] @
     ascii ''ximo riesgo. Solo incluir si approved es true.''"

text \<open>The two keywords of the simulated case; code point 243 is the o with acute accent.\<close>

definition kw_redencion :: pystr where
  "kw_redencion = ascii ''redenci'' @ [243] @ ascii ''n''"

definition kw_colateral :: pystr where
  "kw_colateral = ascii ''colateral''"

definition fence :: pystr where
  "fence = ascii ''```''"

text \<open>\<open>if api_key and api_key.strip()\<close>.\<close>

definition api_key_configured :: "pystr option \<Rightarrow> bool" where
  "api_key_configured api_key =
     (case api_key of None \<Rightarrow> False | Some k \<Rightarrow> k \<noteq> [] \<and> py_strip k \<noteq> [])"

text \<open>
  Lines 113 to 118: the content is stripped, and when it then starts with a fence the lines
  that start with a fence, once stripped themselves, are left out.
\<close>

definition clean_markdown :: "pystr \<Rightarrow> pystr" where
  "clean_markdown content0 =
     (let content = py_strip content0 in
      if py_startswith content fence then
        (let lines = py_split 10 content in
         py_join 10 (filter (\<lambda>l. \<not> py_startswith (py_strip l) fence) lines))
      else content)"

text \<open>Lines 103 to 119, the body of the \<open>try\<close>.\<close>

definition ai_messages :: "pystr \<Rightarrow> (pystr \<times> pystr) list" where
  "ai_messages text =
     [(ascii ''system'', RWA_AUDITOR_SYSTEM_PROMPT), (ascii ''user'', take 12000 text)]"

text \<open>Line 111, \<open>message.content or "{}"\<close>: the default for \<open>None\<close> and for the empty text.\<close>

definition content_or_default :: "pystr option \<Rightarrow> pystr" where
  "content_or_default c =
     (case c of None \<Rightarrow> ascii ''{}'' | Some s \<Rightarrow> if s = [] then ascii ''{}'' else s)"

text \<open>
  The call of the backend: what it returns or raises, and the entry of the call in the log,
  with the arguments the backend was given.
\<close>

definition call_chat_create ::
  "'enc pylib \<Rightarrow> pystr \<Rightarrow> (pystr \<times> pystr) list \<Rightarrow> (exn + pystr option list) \<times> event list" where
  "call_chat_create L api_key messages =
     (chat_create L api_key messages, [Call_chat_create api_key messages])"

definition ai_try_body ::
  "'enc pylib \<Rightarrow> pystr \<Rightarrow> pystr \<Rightarrow> (exn + json) \<times> event list" where
  "ai_try_body L api_key text =
     (case call_chat_create L api_key (ai_messages text) of
        (Inl e, tr) \<Rightarrow> (Inl e, tr)
      | (Inr choices, tr) \<Rightarrow>
          (case choices of
             [] \<Rightarrow> (Inl (Exn ''IndexError'' (ascii ''list index out of range'')), tr)
           | c # _ \<Rightarrow>
               (let content = content_or_default c
                in (json_loads L (clean_markdown content), tr))))"

text \<open>\<open>except Exception as e\<close>: the rejection that carries \<open>str(e)\<close>.\<close>

definition ai_fallback :: "exn \<Rightarrow> json" where
  "ai_fallback e = JObj [(ascii ''approved'', JBool False), (ascii ''error'', JStr (exn_str e))]"

text \<open>Lines 125 to 128, the simulated case.\<close>

definition rule_based :: "'enc pylib \<Rightarrow> pystr \<Rightarrow> json" where
  "rule_based L text =
     (let text_lower = str_lower L text in
      if py_in kw_redencion text_lower \<and> py_in kw_colateral text_lower then
        JObj [(ascii ''approved'', JBool True), (ascii ''risk_score'', JInt 1)]
      else JObj [(ascii ''approved'', JBool False)])"

text \<open>
  \<open>analyze_legal_document\<close>: the value returned or the exception raised, and the calls made.
\<close>

definition analyze_legal_document :: "'enc pylib \<Rightarrow> pystr \<Rightarrow> (exn + json) \<times> event list" where
  "analyze_legal_document L text =
     (let api_key = OPENAI_API_KEY L in
      if api_key_configured api_key then
        (case api_key of
           None \<Rightarrow> (Inr (rule_based L text), [])
         | Some k \<Rightarrow>
             (case ai_try_body L k text of
                (Inl e, tr) \<Rightarrow> (Inr (ai_fallback e), tr)
              | (Inr v, tr) \<Rightarrow> (Inr v, tr)))
      else (Inr (rule_based L text), []))"

subsection \<open>Encoding and digest\<close>

text \<open>
  \<open>str.encode("utf-8")\<close>: one to four bytes for a code point; a surrogate cannot be
  encoded and raises. A Python string holds no number from 1114112 on.
\<close>

definition utf8_encode_cp :: "nat \<Rightarrow> exn + byte list" where
  "utf8_encode_cp c =
     (if c < 128 then Inr [of_nat c]
      else if c < 2048 then Inr [of_nat (192 + c div 64), of_nat (128 + c mod 64)]
      else if 55296 \<le> c \<and> c \<le> 57343 then
        Inl (Exn ''UnicodeEncodeError'' (ascii ''surrogates not allowed''))
      else if c < 65536 then
        Inr [of_nat (224 + c div 4096), of_nat (128 + c div 64 mod 64), of_nat (128 + c mod 64)]
      else if c < 1114112 then
        Inr [of_nat (240 + c div 262144), of_nat (128 + c div 4096 mod 64),
             of_nat (128 + c div 64 mod 64), of_nat (128 + c mod 64)]
      else Inl (Exn ''ValueError'' (ascii ''not a code point'')))"

fun utf8_encode :: "pystr \<Rightarrow> exn + byte list" where
  "utf8_encode [] = Inr []"
| "utf8_encode (c # cs) =
     (case utf8_encode_cp c of
        Inl e \<Rightarrow> Inl e
      | Inr bs \<Rightarrow> (case utf8_encode cs of Inl e \<Rightarrow> Inl e | Inr rest \<Rightarrow> Inr (bs @ rest)))"

text \<open>\<open>hexdigest()\<close>: two lowercase hexadecimal digits for every byte of the digest.\<close>

definition hexdigit :: "nat \<Rightarrow> nat" where
  "hexdigit d = (if d < 10 then 48 + d else 87 + d)"

definition hexdigest :: "byte list \<Rightarrow> pystr" where
  "hexdigest bs = concat (map (\<lambda>b. [hexdigit (unat b div 16), hexdigit (unat b mod 16)]) bs)"

subsection \<open>Signature verification\<close>

text \<open>\<open>try: body except Exception: handler\<close> on results.\<close>

definition try_except :: "exn + 'a \<Rightarrow> (exn \<Rightarrow> exn + 'a) \<Rightarrow> exn + 'a" where
  "try_except body handler = (case body of Inl e \<Rightarrow> handler e | Inr v \<Rightarrow> Inr v)"

text \<open>
  \<open>verify_signature\<close>, lines 61 to 73. The result is a sum so that an exception leaving the
  function would be a value \<open>Inl\<close>.
\<close>

definition verify_signature :: "'enc pylib \<Rightarrow> pystr \<Rightarrow> pystr \<Rightarrow> pystr \<Rightarrow> exn + bool" where
  "verify_signature L wallet_address signature message =
     try_except
       (case encode_defunct L message of
          Inl e \<Rightarrow> Inl e
        | Inr encoded \<Rightarrow>
            (case recover_message L encoded signature of
               Inl e \<Rightarrow> Inl e
             | Inr recovered_address \<Rightarrow>
                 Inr (str_lower L recovered_address = str_lower L wallet_address)))
       (\<lambda>e. Inr False)"

subsection \<open>The endpoint\<close>

definition LEGAL_VALIDATORS_WHITELIST :: "pystr list" where
  "LEGAL_VALIDATORS_WHITELIST = [ascii ''0xf39Fd6e51aad88F6F4ce6aB8827279cffFb92266'']"

record TokenizationRequest =
  wallet_address :: pystr
  signature :: pystr
  document_content :: pystr

text \<open>
  How a call of the endpoint ends without a response: an \<open>HTTPException\<close> with its status
  code and detail, or any other exception, which the function does not handle.
\<close>

datatype failure = HTTPException nat pystr | Unhandled exn

definition DETAIL_403 :: pystr where
  "DETAIL_403 = ascii ''Wallet no autorizada en la whitelist de validadores legales''"

definition DETAIL_401 :: pystr where
  "DETAIL_401 =
     ascii ''Firma inv'' @ [225] @
     ascii ''lida: no coincide con la wallet o el contenido del documento''"

definition ORACLE_SIGNATURE :: pystr where
  "ORACLE_SIGNATURE = ascii ''simulated_signature_0x123''"

text \<open>Lines 166 to 180: the response for the result of the analysis.\<close>

definition outcome_assembly :: "'enc pylib \<Rightarrow> TokenizationRequest \<Rightarrow> json \<Rightarrow> failure + json" where
  "outcome_assembly L body ai_result =
     (case py_get ai_result (ascii ''approved'') of
        Inl e \<Rightarrow> Inl (Unhandled e)
      | Inr v \<Rightarrow>
          if v = JBool True then
            (case utf8_encode (document_content body) of
               Inl e \<Rightarrow> Inl (Unhandled e)
             | Inr bs \<Rightarrow>
                 Inr (JObj [(ascii ''status'', JStr (ascii ''success'')),
                            (ascii ''audit_result'', ai_result),
                            (ascii ''document_hash'', JStr (hexdigest (sha256 L bs))),
                            (ascii ''signature_from_oracle'', JStr ORACLE_SIGNATURE)]))
          else
            Inr (JObj [(ascii ''status'', JStr (ascii ''rejected'')),
                       (ascii ''audit_result'', ai_result)]))"

text \<open>\<open>audit_contract\<close>, lines 137 to 180: how the call ends, and the calls it made.\<close>

definition audit_contract ::
  "'enc pylib \<Rightarrow> TokenizationRequest \<Rightarrow> (failure + json) \<times> event list" where
  "audit_contract L body =
     (let allowed_wallets = set (map (str_lower L) LEGAL_VALIDATORS_WHITELIST);
          ev_verify = Call_verify_signature (wallet_address body) (signature body)
                        (document_content body);
          ev_analyze = Call_analyze_legal_document (document_content body)
      in
      if str_lower L (wallet_address body) \<notin> allowed_wallets then
        (Inl (HTTPException 403 DETAIL_403), [])
      else
        (case verify_signature L (wallet_address body) (signature body)
                (document_content body) of
           Inl e \<Rightarrow> (Inl (Unhandled e), [ev_verify])
         | Inr ok \<Rightarrow>
             if \<not> ok then (Inl (HTTPException 401 DETAIL_401), [ev_verify])
             else
               (case analyze_legal_document L (document_content body) of
                  (Inl e, tr) \<Rightarrow> (Inl (Unhandled e), ev_verify # ev_analyze # tr)
                | (Inr ai_result, tr) \<Rightarrow>
                    (outcome_assembly L body ai_result, ev_verify # ev_analyze # tr))))"

text \<open>Membership in the whitelist as line 147 tests it.\<close>

definition whitelisted :: "'enc pylib \<Rightarrow> pystr \<Rightarrow> bool" where
  "whitelisted L w \<longleftrightarrow> str_lower L w \<in> set (map (str_lower L) LEGAL_VALIDATORS_WHITELIST)"

subsection \<open>Stand-ins for the libraries, for concrete runs\<close>

text \<open>
  \<open>str.lower\<close> on text of code points below 256: the capitals A to Z and those from 192 to
  222 but the multiplication sign move up by 32.
\<close>

definition latin1_lower_cp :: "nat \<Rightarrow> nat" where
  "latin1_lower_cp c =
     (if (65 \<le> c \<and> c \<le> 90) \<or> (192 \<le> c \<and> c \<le> 222 \<and> c \<noteq> 215) then c + 32 else c)"

text \<open>
  A toy signature scheme: the whitelisted account signs a text by prefixing it; a short
  signature is malformed; any other one recovers to a second account.
\<close>

definition demo_sign :: "pystr \<Rightarrow> pystr" where
  "demo_sign message = ascii ''signed:'' @ message"

definition demo_recover :: "pystr \<Rightarrow> pystr \<Rightarrow> exn + pystr" where
  "demo_recover encoded sig =
     (if sig = demo_sign encoded then Inr (ascii ''0xf39Fd6e51aad88F6F4ce6aB8827279cffFb92266'')
      else if length sig < 7 then Inl (Exn ''ValueError'' (ascii ''bad signature length''))
      else Inr (ascii ''0x70997970C51812dc3A010C7d01b50e0d17dc79C8''))"

text \<open>A parser that knows a few texts only; code point 34 is the double quote.\<close>

definition demo_json_loads :: "pystr \<Rightarrow> exn + json" where
  "demo_json_loads s =
     (if s = ascii ''{}'' then Inr (JObj [])
      else if s = ascii ''[]'' then Inr (JArr [])
      else if s = ascii ''{'' @ [34] @ ascii ''approved'' @ [34] @ ascii '': true}''
        then Inr (JObj [(ascii ''approved'', JBool True)])
      else if s = ascii ''{'' @ [34] @ ascii ''approved'' @ [34] @ ascii '': 1}''
        then Inr (JObj [(ascii ''approved'', JInt 1)])
      else Inl (Exn ''JSONDecodeError'' (ascii ''Expecting value'')))"

definition demo_lib ::
  "pystr option \<Rightarrow> (pystr \<Rightarrow> (pystr \<times> pystr) list \<Rightarrow> exn + pystr option list) \<Rightarrow> pystr pylib" where
  "demo_lib key backend =
     \<lparr>str_lower = map latin1_lower_cp,
      encode_defunct = Inr,
      recover_message = demo_recover,
      OPENAI_API_KEY = key,
      chat_create = backend,
      json_loads = demo_json_loads,
      sha256 = (\<lambda>bs. take 32 (bs @ replicate 32 0))\<rparr>"

text \<open>A backend that cannot be reached, and one that answers with a fixed text.\<close>

definition no_backend :: "pystr \<Rightarrow> (pystr \<times> pystr) list \<Rightarrow> exn + pystr option list" where
  "no_backend k msgs = Inl (Exn ''APIConnectionError'' (ascii ''Connection error.''))"

definition fixed_backend ::
  "pystr \<Rightarrow> pystr \<Rightarrow> (pystr \<times> pystr) list \<Rightarrow> exn + pystr option list" where
  "fixed_backend answer k msgs = Inr [Some answer]"

definition doc_ok :: pystr where
  "doc_ok = ascii ''COLATERAL y REDENCI'' @ [211] @ ascii ''N''"

definition req_stranger :: TokenizationRequest where
  "req_stranger =
     \<lparr>wallet_address = ascii ''0x70997970C51812dc3A010C7d01b50e0d17dc79C8'',
      signature = demo_sign doc_ok,
      document_content = doc_ok\<rparr>"

definition req_tampered :: TokenizationRequest where
  "req_tampered =
     \<lparr>wallet_address = ascii ''0xF39FD6E51AAD88F6F4CE6AB8827279CFFFB92266'',
      signature = demo_sign (ascii ''another text''),
      document_content = doc_ok\<rparr>"

definition req_good :: "pystr \<Rightarrow> TokenizationRequest" where
  "req_good doc =
     \<lparr>wallet_address = ascii ''0xF39FD6E51AAD88F6F4CE6AB8827279CFFFB92266'',
      signature = demo_sign doc,
      document_content = doc\<rparr>"

definition sk_test :: pystr where
  "sk_test = ascii ''sk-test''"

text \<open>An answer of the backend wrapped in a fenced block.\<close>

definition fenced_answer :: pystr where
  "fenced_answer =
     ascii ''```json'' @ [10] @
     ascii ''{'' @ [34] @ ascii ''approved'' @ [34] @ ascii '': 1}'' @ [10] @
     ascii ''```''"

text \<open>
  A backend that answers the messages whose user text is 12000 letters a with an approval
  and refuses any other; and a text of those 12000 letters followed by the two keywords.
\<close>

definition approved_true_json :: pystr where
  "approved_true_json = ascii ''{'' @ [34] @ ascii ''approved'' @ [34] @ ascii '': true}''"

definition long_text :: pystr where
  "long_text = replicate 12000 97 @ ascii ''REDENCI'' @ [211] @ ascii ''N COLATERAL''"

definition echo_backend :: "pystr \<Rightarrow> (pystr \<times> pystr) list \<Rightarrow> exn + pystr option list" where
  "echo_backend k msgs =
     (if msgs = [(ascii ''system'', RWA_AUDITOR_SYSTEM_PROMPT), (ascii ''user'', replicate 12000 97)]
      then Inr [Some approved_true_json]
      else Inl (Exn ''BadRequestError'' (ascii ''unexpected messages'')))"

text \<open>
  The lines the comprehension of lines 116 to 118 keeps: those of the stripped content
  that do not start with a fence once stripped themselves.
\<close>

definition kept_lines :: "pystr \<Rightarrow> pystr list" where
  "kept_lines content =
     filter (\<lambda>l. \<not> py_startswith (py_strip l) fence) (py_split 10 (py_strip content))"

text \<open>An answer that does not start with a fence and ends with one.\<close>

definition unfenced_answer :: pystr where
  "unfenced_answer = ascii ''{}'' @ [10] @ ascii ''```''"

section \<open>Properties\<close>

subsection \<open>Helper facts\<close>

lemma demo_lib_sel:
  "str_lower (demo_lib k b) = map latin1_lower_cp"
  "encode_defunct (demo_lib k b) = Inr"
  "recover_message (demo_lib k b) = demo_recover"
  "OPENAI_API_KEY (demo_lib k b) = k"
  "chat_create (demo_lib k b) = b"
  "json_loads (demo_lib k b) = demo_json_loads"
  "sha256 (demo_lib k b) = (\<lambda>bs. take 32 (bs @ replicate 32 0))"
  by (simp_all add: demo_lib_def)

lemma verify_signature_returns: "\<exists>b. verify_signature L w s m = Inr b"
  by (auto simp add: verify_signature_def try_except_def split: sum.splits)

lemma stranger_not_listed:
  "str_lower (demo_lib k b) (wallet_address req_stranger)
     \<notin> set (map (str_lower (demo_lib k b)) LEGAL_VALIDATORS_WHITELIST)"
  by (simp add: demo_lib_sel req_stranger_def LEGAL_VALIDATORS_WHITELIST_def ascii_def
      latin1_lower_cp_def)

lemma tampered_listed:
  "str_lower (demo_lib k b) (wallet_address req_tampered)
     \<in> set (map (str_lower (demo_lib k b)) LEGAL_VALIDATORS_WHITELIST)"
  by (simp add: demo_lib_sel req_tampered_def LEGAL_VALIDATORS_WHITELIST_def ascii_def
      latin1_lower_cp_def)

lemma tampered_verify:
  "verify_signature (demo_lib k b) (wallet_address req_tampered) (signature req_tampered)
     (document_content req_tampered) = Inr False"
  by (simp add: verify_signature_def try_except_def demo_lib_sel req_tampered_def
      demo_recover_def demo_sign_def doc_ok_def ascii_def latin1_lower_cp_def)

lemma py_in_iff: "py_in needle hay \<longleftrightarrow> (\<exists>before after. hay = before @ needle @ after)"
  by (simp add: py_in_def sublist_def)

lemma analyze_rule_based:
  "\<not> api_key_configured (OPENAI_API_KEY L) \<Longrightarrow>
   analyze_legal_document L text = (Inr (rule_based L text), [])"
  by (simp add: analyze_legal_document_def Let_def split: option.splits)

lemma demo_key_absent: "\<not> api_key_configured (OPENAI_API_KEY (demo_lib None b))"
  by (simp add: demo_lib_sel api_key_configured_def)

lemma audit_contract_passed:
  assumes "whitelisted L (wallet_address body)"
    and "verify_signature L (wallet_address body) (signature body) (document_content body) = Inr True"
    and "analyze_legal_document L (document_content body) = (Inr ai_result, tr)"
  shows "audit_contract L body =
           (outcome_assembly L body ai_result,
            Call_verify_signature (wallet_address body) (signature body) (document_content body) #
            Call_analyze_legal_document (document_content body) # tr)"
  using assms by (simp add: audit_contract_def Let_def whitelisted_def)

lemma outcome_assembly_obj:
  "outcome_assembly L body (JObj kv) =
     (if map_of kv (ascii ''approved'') = Some (JBool True) then
        (case utf8_encode (document_content body) of
           Inl e \<Rightarrow> Inl (Unhandled e)
         | Inr bs \<Rightarrow>
             Inr (JObj [(ascii ''status'', JStr (ascii ''success'')),
                        (ascii ''audit_result'', JObj kv),
                        (ascii ''document_hash'', JStr (hexdigest (sha256 L bs))),
                        (ascii ''signature_from_oracle'', JStr ORACLE_SIGNATURE)]))
      else Inr (JObj [(ascii ''status'', JStr (ascii ''rejected'')),
                      (ascii ''audit_result'', JObj kv)]))"
  by (auto simp add: outcome_assembly_def py_get_def split: option.splits)

lemma hexdigit_lower: "d < 16 \<Longrightarrow> (48 \<le> hexdigit d \<and> hexdigit d \<le> 57) \<or> (97 \<le> hexdigit d \<and> hexdigit d \<le> 102)"
  by (auto simp add: hexdigit_def)

lemma unat_byte_div: "unat (b :: byte) div 16 < 16"
proof -
  have "unat b < 256" using unsigned_less [of b] by simp
  then show ?thesis by simp
qed

lemma hexdigest_lower:
  assumes "c \<in> set (hexdigest bs)"
  shows "(48 \<le> c \<and> c \<le> 57) \<or> (97 \<le> c \<and> c \<le> 102)"
proof -
  from assms obtain b :: byte where "c = hexdigit (unat b div 16) \<or> c = hexdigit (unat b mod 16)"
    by (auto simp add: hexdigest_def)
  moreover have "unat b div 16 < 16" by (rule unat_byte_div)
  moreover have "unat b mod 16 < 16" by simp
  ultimately show ?thesis using hexdigit_lower by metis
qed

lemma hexdigest_length: "length (hexdigest bs) = 2 * length bs"
  by (induction bs) (simp_all add: hexdigest_def)

lemma ai_try_body_log: "snd (ai_try_body L k text) = [Call_chat_create k (ai_messages text)]"
  by (simp add: ai_try_body_def call_chat_create_def Let_def split: sum.splits list.splits)

lemma ai_try_body_result:
  "fst (ai_try_body L k text) =
     (case chat_create L k (ai_messages text) of
        Inl e \<Rightarrow> Inl e
      | Inr [] \<Rightarrow> Inl (Exn ''IndexError'' (ascii ''list index out of range''))
      | Inr (c # cs) \<Rightarrow> json_loads L (clean_markdown (content_or_default c)))"
  by (simp add: ai_try_body_def call_chat_create_def Let_def split: sum.splits list.splits)

lemma analyze_ai:
  assumes "OPENAI_API_KEY L = Some k" and "api_key_configured (Some k)"
  shows "analyze_legal_document L text =
           ((case fst (ai_try_body L k text) of
               Inl e \<Rightarrow> Inr (ai_fallback e)
             | Inr v \<Rightarrow> Inr v),
            [Call_chat_create k (ai_messages text)])"
proof -
  obtain r tr where rt: "ai_try_body L k text = (r, tr)"
    by (cases "ai_try_body L k text")
  with ai_try_body_log [of L k "text"] have "tr = [Call_chat_create k (ai_messages text)]"
    by simp
  with rt assms show ?thesis
    by (cases r) (simp_all add: analyze_legal_document_def Let_def)
qed

lemma outcome_assembly_no_http: "outcome_assembly L body r \<noteq> Inl (HTTPException code detail)"
  by (simp add: outcome_assembly_def split: sum.splits)

lemma good_listed: "whitelisted (demo_lib k b) (wallet_address (req_good d))"
  by (simp add: whitelisted_def demo_lib_sel req_good_def LEGAL_VALIDATORS_WHITELIST_def ascii_def
      latin1_lower_cp_def)

lemma good_verify:
  "verify_signature (demo_lib k b) (wallet_address (req_good d)) (signature (req_good d))
     (document_content (req_good d)) = Inr True"
  by (simp add: verify_signature_def try_except_def demo_lib_sel req_good_def
      demo_recover_def ascii_def latin1_lower_cp_def)

lemma sk_test_configured: "api_key_configured (Some sk_test)"
  by (simp add: api_key_configured_def sk_test_def py_strip_def py_isspace_def ascii_def)

lemma utf8_doc_ok:
  "utf8_encode doc_ok =
     Inr [67, 79, 76, 65, 84, 69, 82, 65, 76, 32, 121, 32, 82, 69, 68, 69, 78, 67, 73, 195, 147, 78]"
  by (simp add: doc_ok_def ascii_def utf8_encode_cp_def)

lemma clean_fenced:
  "clean_markdown fenced_answer = ascii ''{'' @ [34] @ ascii ''approved'' @ [34] @ ascii '': 1}''"
  by (simp add: clean_markdown_def fenced_answer_def py_strip_def py_isspace_def ascii_def
      py_startswith_def fence_def Let_def)

lemma fenced_nonempty: "fenced_answer \<noteq> []"
  by (simp add: fenced_answer_def ascii_def)

lemma loads_fenced:
  "demo_json_loads (ascii ''{'' @ [34] @ ascii ''approved'' @ [34] @ ascii '': 1}'') =
     Inr (JObj [(ascii ''approved'', JInt 1)])"
  by (simp add: demo_json_loads_def ascii_def)

lemma analyze_doc_ok:
  "analyze_legal_document (demo_lib None b) doc_ok =
     (Inr (JObj [(ascii ''approved'', JBool True), (ascii ''risk_score'', JInt 1)]), [])"
  by (simp add: analyze_rule_based [OF demo_key_absent] demo_lib_sel rule_based_def py_in_def
      doc_ok_def ascii_def latin1_lower_cp_def kw_redencion_def kw_colateral_def sublist_code)

lemma analyze_fenced:
  "analyze_legal_document (demo_lib (Some sk_test) (fixed_backend fenced_answer)) d =
     (Inr (JObj [(ascii ''approved'', JInt 1)]),
      [Call_chat_create sk_test (ai_messages d)])"
proof -
  have k: "OPENAI_API_KEY (demo_lib (Some sk_test) (fixed_backend fenced_answer)) = Some sk_test"
    by (simp add: demo_lib_sel)
  have "fst (ai_try_body (demo_lib (Some sk_test) (fixed_backend fenced_answer)) sk_test d) =
      Inr (JObj [(ascii ''approved'', JInt 1)])"
    by (simp add: ai_try_body_result demo_lib_sel fixed_backend_def content_or_default_def
        fenced_nonempty clean_fenced demo_json_loads_def ascii_def)
  then show ?thesis by (simp add: analyze_ai [OF k sk_test_configured])
qed

lemma py_split_nonempty: "py_split sep s \<noteq> []"
  by (induction s) (auto split: list.splits)

lemma py_split_no_sep: "l \<in> set (py_split sep s) \<Longrightarrow> sep \<notin> set l"
proof (induction s arbitrary: l)
  case Nil
  then show ?case by simp
next
  case (Cons c cs)
  show ?case
  proof (cases "c = sep")
    case True
    with Cons show ?thesis by auto
  next
    case False
    obtain h t where ht: "py_split sep cs = h # t"
      using py_split_nonempty [of sep cs] by (cases "py_split sep cs") auto
    with Cons False show ?thesis by auto
  qed
qed

lemma py_split_line: "sep \<notin> set l \<Longrightarrow> py_split sep l = [l]"
  by (induction l) auto

lemma py_split_append: "sep \<notin> set l \<Longrightarrow> py_split sep (l @ sep # r) = l # py_split sep r"
  by (induction l) auto

lemma py_split_join:
  "ls \<noteq> [] \<Longrightarrow> \<forall>l \<in> set ls. sep \<notin> set l \<Longrightarrow> py_split sep (py_join sep ls) = ls"
proof (induction sep ls rule: py_join.induct)
  case (1 sep)
  then show ?case by simp
next
  case (2 sep l)
  then show ?case by (simp add: py_split_line)
next
  case (3 sep l l' ls)
  then show ?case by (simp add: py_split_append)
qed

lemma py_join_split: "py_join sep (py_split sep s) = s"
proof (induction s)
  case Nil
  then show ?case by simp
next
  case (Cons c cs)
  obtain h t where ht: "py_split sep cs = h # t"
    using py_split_nonempty [of sep cs] by (cases "py_split sep cs") auto
  with Cons show ?case by (cases t) auto
qed

lemma fenced_starts: "py_startswith (py_strip fenced_answer) fence"
  by (simp add: fenced_answer_def py_strip_def py_isspace_def ascii_def py_startswith_def fence_def)

lemma fenced_kept:
  "kept_lines fenced_answer = [ascii ''{'' @ [34] @ ascii ''approved'' @ [34] @ ascii '': 1}'']"
  by (simp add: kept_lines_def fenced_answer_def py_strip_def py_isspace_def ascii_def
      py_startswith_def fence_def)

lemma sk_configured_echo:
  "OPENAI_API_KEY (demo_lib (Some sk_test) echo_backend) = Some sk_test"
  by (simp add: demo_lib_sel)

lemma take_long_text: "take 12000 long_text = replicate 12000 97"
  by (simp add: long_text_def)

lemma clean_approved_true: "clean_markdown approved_true_json = approved_true_json"
  by (simp add: clean_markdown_def approved_true_json_def py_strip_def py_isspace_def ascii_def
      py_startswith_def fence_def Let_def)

lemma approved_true_nonempty: "approved_true_json \<noteq> []"
  by (simp add: approved_true_json_def ascii_def)

lemma loads_approved_true:
  "demo_json_loads approved_true_json = Inr (JObj [(ascii ''approved'', JBool True)])"
  by (simp add: demo_json_loads_def approved_true_json_def ascii_def)

lemma hexdigest_example: "hexdigest [0, 15, 165, 255] = ascii ''000fa5ff''"
  by (simp add: hexdigest_def hexdigit_def ascii_def)

lemma utf8_encode_examples:
  "utf8_encode_cp 65 = Inr [65]"
  "utf8_encode_cp 243 = Inr [195, 179]"
  "utf8_encode_cp 8364 = Inr [226, 130, 172]"
  "utf8_encode_cp 128512 = Inr [240, 159, 152, 128]"
  "utf8_encode_cp 55296 = Inl (Exn ''UnicodeEncodeError'' (ascii ''surrogates not allowed''))"
  by (simp_all add: utf8_encode_cp_def)

subsection \<open>The authorization gate\<close>

text \<open>
  C1. A request whose wallet address, lowercased, is not among the lowercased addresses of
  the whitelist ends with the HTTP exception of status 403, whatever its signature is, and
  the call log is empty: neither \<open>verify_signature\<close> nor \<open>analyze_legal_document\<close> (nor
  the backend) was called.
\<close>

theorem audit_contract_unauthorized:
  "str_lower L (wallet_address body) \<notin> set (map (str_lower L) LEGAL_VALIDATORS_WHITELIST) \<Longrightarrow>
   audit_contract L body = (Inl (HTTPException 403 DETAIL_403), [])"
  by (simp add: audit_contract_def Let_def)

theorem audit_contract_unauthorized_witness:
  "str_lower (demo_lib None no_backend) (wallet_address req_stranger)
     \<notin> set (map (str_lower (demo_lib None no_backend)) LEGAL_VALIDATORS_WHITELIST) \<and>
   audit_contract (demo_lib None no_backend) req_stranger =
     (Inl (HTTPException 403 DETAIL_403), [])"
  using stranger_not_listed [of None no_backend]
    audit_contract_unauthorized [OF stranger_not_listed, of None no_backend]
  by simp

subsection \<open>The signature gate\<close>

text \<open>
  C2. A request of a whitelisted wallet whose signature does not verify against the wallet
  address and the document content ends with the HTTP exception of status 401, and the
  only call made is the one of \<open>verify_signature\<close>: the analyzer was not called.
\<close>

theorem audit_contract_invalid_signature:
  assumes "str_lower L (wallet_address body) \<in> set (map (str_lower L) LEGAL_VALIDATORS_WHITELIST)"
    and "verify_signature L (wallet_address body) (signature body) (document_content body)
           \<noteq> Inr True"
  shows "audit_contract L body =
           (Inl (HTTPException 401 DETAIL_401),
            [Call_verify_signature (wallet_address body) (signature body)
               (document_content body)])"
proof -
  obtain b where b:
    "verify_signature L (wallet_address body) (signature body) (document_content body) = Inr b"
    using verify_signature_returns by blast
  with assms(2) have "\<not> b" by auto
  with b assms(1) show ?thesis by (simp add: audit_contract_def Let_def)
qed

theorem audit_contract_invalid_signature_witness:
  "audit_contract (demo_lib None no_backend) req_tampered =
     (Inl (HTTPException 401 DETAIL_401),
      [Call_verify_signature (wallet_address req_tampered) (signature req_tampered)
         (document_content req_tampered)])"
  using audit_contract_invalid_signature [OF tampered_listed, of None no_backend]
  by (simp add: tampered_verify)

subsection \<open>The rule-based analyzer\<close>

text \<open>
  C3. With no API key configured the analyzer calls nothing and returns a dictionary in
  which \<open>approved\<close> is \<open>True\<close> exactly when the lowercased text contains both keywords,
  each anywhere in it (whatever comes before and after, and in either order). When approved
  \<open>risk_score\<close> is 1; when not, \<open>approved\<close> is \<open>False\<close> and there is no \<open>risk_score\<close>.
\<close>

theorem rule_based_analyzer:
  assumes "\<not> api_key_configured (OPENAI_API_KEY L)"
  shows "\<exists>kv. analyze_legal_document L text = (Inr (JObj kv), []) \<and>
           (map_of kv (ascii ''approved'') = Some (JBool True) \<longleftrightarrow>
              (\<exists>a b. str_lower L text = a @ kw_redencion @ b) \<and>
              (\<exists>a b. str_lower L text = a @ kw_colateral @ b)) \<and>
           (map_of kv (ascii ''approved'') = Some (JBool True) \<longrightarrow>
              map_of kv (ascii ''risk_score'') = Some (JInt 1)) \<and>
           (map_of kv (ascii ''approved'') \<noteq> Some (JBool True) \<longrightarrow>
              map_of kv (ascii ''approved'') = Some (JBool False) \<and>
              map_of kv (ascii ''risk_score'') = None)"
proof (cases "py_in kw_redencion (str_lower L text) \<and> py_in kw_colateral (str_lower L text)")
  case True
  then have "rule_based L text =
      JObj [(ascii ''approved'', JBool True), (ascii ''risk_score'', JInt 1)]"
    by (simp add: rule_based_def Let_def)
  with True assms show ?thesis
    by (simp add: analyze_rule_based py_in_iff ascii_def)
next
  case False
  then have "rule_based L text = JObj [(ascii ''approved'', JBool False)]"
    by (auto simp add: rule_based_def Let_def)
  with False assms show ?thesis
    by (simp add: analyze_rule_based py_in_iff ascii_def)
qed

theorem rule_based_analyzer_witness:
  "\<not> api_key_configured (OPENAI_API_KEY (demo_lib None no_backend)) \<and>
   fst (analyze_legal_document (demo_lib None no_backend) doc_ok) =
     Inr (JObj [(ascii ''approved'', JBool True), (ascii ''risk_score'', JInt 1)]) \<and>
   fst (analyze_legal_document (demo_lib None no_backend) (ascii ''Contrato con COLATERAL'')) =
     Inr (JObj [(ascii ''approved'', JBool False)])"
proof -
  let ?L = "demo_lib None no_backend"
  obtain kv where kv: "analyze_legal_document ?L doc_ok = (Inr (JObj kv), [])"
    using rule_based_analyzer [OF demo_key_absent, of no_backend doc_ok] by blast
  obtain kv' where kv':
    "analyze_legal_document ?L (ascii ''Contrato con COLATERAL'') = (Inr (JObj kv'), [])"
    using rule_based_analyzer [OF demo_key_absent, of no_backend "ascii ''Contrato con COLATERAL''"]
    by blast
  have "rule_based ?L doc_ok =
      JObj [(ascii ''approved'', JBool True), (ascii ''risk_score'', JInt 1)]"
    by (simp add: demo_lib_sel rule_based_def py_in_def doc_ok_def ascii_def
        latin1_lower_cp_def kw_redencion_def kw_colateral_def sublist_code)
  moreover have "rule_based ?L (ascii ''Contrato con COLATERAL'') =
      JObj [(ascii ''approved'', JBool False)]"
    by (simp add: demo_lib_sel rule_based_def py_in_def ascii_def
        latin1_lower_cp_def kw_redencion_def kw_colateral_def sublist_code)
  ultimately show ?thesis
    using kv kv' demo_key_absent [of no_backend]
    by (simp add: analyze_rule_based)
qed

subsection \<open>Signature verification\<close>

text \<open>
  C5. For every wallet address, signature and message \<open>verify_signature\<close> returns a
  boolean and raises nothing. It returns \<open>True\<close> exactly when the encoding and the recovery
  succeed and the recovered address, lowercased, equals the lowercased wallet address; when
  the encoding or the recovery raises, it returns \<open>False\<close>.
\<close>

theorem verify_signature_total:
  "(\<exists>b. verify_signature L w s m = Inr b) \<and>
   (verify_signature L w s m = Inr True \<longleftrightarrow>
      (\<exists>encoded recovered. encode_defunct L m = Inr encoded \<and>
         recover_message L encoded s = Inr recovered \<and>
         str_lower L recovered = str_lower L w)) \<and>
   ((\<exists>e. encode_defunct L m = Inl e) \<or>
    (\<exists>encoded e. encode_defunct L m = Inr encoded \<and> recover_message L encoded s = Inl e)
      \<longrightarrow> verify_signature L w s m = Inr False)"
  by (auto simp add: verify_signature_def try_except_def split: sum.splits)

theorem verify_signature_total_witness:
  "verify_signature (demo_lib None no_backend)
     (ascii ''0xF39FD6E51AAD88F6F4CE6AB8827279CFFFB92266'') (demo_sign doc_ok) doc_ok = Inr True \<and>
   verify_signature (demo_lib None no_backend)
     (ascii ''0xF39FD6E51AAD88F6F4CE6AB8827279CFFFB92266'') (ascii ''0x12'') doc_ok = Inr False"
proof -
  let ?L = "demo_lib None no_backend"
  let ?w = "ascii ''0xF39FD6E51AAD88F6F4CE6AB8827279CFFFB92266''"
  have a: "encode_defunct ?L doc_ok = Inr doc_ok \<and>
      recover_message ?L doc_ok (demo_sign doc_ok) =
        Inr (ascii ''0xf39Fd6e51aad88F6F4ce6aB8827279cffFb92266'') \<and>
      str_lower ?L (ascii ''0xf39Fd6e51aad88F6F4ce6aB8827279cffFb92266'') = str_lower ?L ?w"
    by (simp add: demo_lib_sel demo_recover_def ascii_def latin1_lower_cp_def)
  have b: "encode_defunct ?L doc_ok = Inr doc_ok \<and>
      recover_message ?L doc_ok (ascii ''0x12'') =
        Inl (Exn ''ValueError'' (ascii ''bad signature length''))"
    by (simp add: demo_lib_sel demo_recover_def demo_sign_def ascii_def doc_ok_def)
  from a have "verify_signature ?L ?w (demo_sign doc_ok) doc_ok = Inr True"
    using verify_signature_total [of ?L ?w "demo_sign doc_ok" doc_ok] by blast
  moreover from b have "verify_signature ?L ?w (ascii ''0x12'') doc_ok = Inr False"
    using verify_signature_total [of ?L ?w "ascii ''0x12''" doc_ok] by blast
  ultimately show ?thesis by simp
qed

subsection \<open>Outcome assembly\<close>

text \<open>
  For a request that passes both gates and whose analysis is a dictionary the response is
  as the specification has it. When the dictionary has \<open>approved\<close> equal to \<open>True\<close> and
  the document content has the UTF-8 encoding \<open>bs\<close>, the response has status \<open>success\<close>,
  the analysis as \<open>audit_result\<close>, as \<open>document_hash\<close> the hexadecimal digest of the
  SHA-256 of \<open>bs\<close> and as \<open>signature_from_oracle\<close> the fixed text
  \<open>simulated_signature_0x123\<close>. Otherwise the response has status \<open>rejected\<close> and the
  analysis, and nothing else.
\<close>

lemma outcome_for_dictionary:
  assumes "whitelisted L (wallet_address body)"
    and "verify_signature L (wallet_address body) (signature body) (document_content body) = Inr True"
    and "analyze_legal_document L (document_content body) = (Inr (JObj kv), tr)"
  shows "(map_of kv (ascii ''approved'') = Some (JBool True) \<longrightarrow>
            (\<forall>bs. utf8_encode (document_content body) = Inr bs \<longrightarrow>
               fst (audit_contract L body) =
                 Inr (JObj [(ascii ''status'', JStr (ascii ''success'')),
                            (ascii ''audit_result'', JObj kv),
                            (ascii ''document_hash'', JStr (hexdigest (sha256 L bs))),
                            (ascii ''signature_from_oracle'',
                               JStr (ascii ''simulated_signature_0x123''))]) \<and>
               length (hexdigest (sha256 L bs)) = 2 * length (sha256 L bs) \<and>
               (\<forall>c \<in> set (hexdigest (sha256 L bs)).
                  (48 \<le> c \<and> c \<le> 57) \<or> (97 \<le> c \<and> c \<le> 102)))) \<and>
         (map_of kv (ascii ''approved'') \<noteq> Some (JBool True) \<longrightarrow>
            fst (audit_contract L body) =
              Inr (JObj [(ascii ''status'', JStr (ascii ''rejected'')),
                         (ascii ''audit_result'', JObj kv)]))"
  using hexdigest_lower [of _ "sha256 L _"]
  by (simp add: audit_contract_passed [OF assms] outcome_assembly_obj hexdigest_length
      ORACLE_SIGNATURE_def)

lemma outcome_for_dictionary_example:
  "fst (audit_contract (demo_lib None no_backend) (req_good doc_ok)) =
     Inr (JObj [(ascii ''status'', JStr (ascii ''success'')),
                (ascii ''audit_result'',
                 JObj [(ascii ''approved'', JBool True), (ascii ''risk_score'', JInt 1)]),
                (ascii ''document_hash'',
                 JStr (hexdigest (sha256 (demo_lib None no_backend)
                   [67, 79, 76, 65, 84, 69, 82, 65, 76, 32, 121, 32, 82, 69, 68, 69, 78, 67, 73,
                    195, 147, 78]))),
                (ascii ''signature_from_oracle'', JStr (ascii ''simulated_signature_0x123''))])"
proof -
  let ?L = "demo_lib None no_backend"
  let ?kv = "[(ascii ''approved'', JBool True), (ascii ''risk_score'', JInt 1)]"
  have a: "analyze_legal_document ?L (document_content (req_good doc_ok)) = (Inr (JObj ?kv), [])"
    by (simp add: req_good_def analyze_doc_ok)
  have u: "utf8_encode (document_content (req_good doc_ok)) =
     Inr [67, 79, 76, 65, 84, 69, 82, 65, 76, 32, 121, 32, 82, 69, 68, 69, 78, 67, 73, 195, 147, 78]"
    by (simp add: req_good_def utf8_doc_ok)
  have m: "map_of ?kv (ascii ''approved'') = Some (JBool True)" by simp
  note t = outcome_for_dictionary [OF good_listed good_verify a]
  from t have "map_of ?kv (ascii ''approved'') = Some (JBool True) \<longrightarrow>
      (\<forall>bs. utf8_encode (document_content (req_good doc_ok)) = Inr bs \<longrightarrow>
         fst (audit_contract ?L (req_good doc_ok)) =
           Inr (JObj [(ascii ''status'', JStr (ascii ''success'')),
                      (ascii ''audit_result'', JObj ?kv),
                      (ascii ''document_hash'', JStr (hexdigest (sha256 ?L bs))),
                      (ascii ''signature_from_oracle'',
                         JStr (ascii ''simulated_signature_0x123''))]) \<and>
         length (hexdigest (sha256 ?L bs)) = 2 * length (sha256 ?L bs) \<and>
         (\<forall>c \<in> set (hexdigest (sha256 ?L bs)).
            (48 \<le> c \<and> c \<le> 57) \<or> (97 \<le> c \<and> c \<le> 102)))"
    by (rule conjunct1)
  from this [rule_format, OF m u] show ?thesis by (rule conjunct1)
qed

text \<open>
  C4. Every request that passes both gates gets a response: of status \<open>success\<close> with
  \<open>document_hash\<close> and the attestation when the verdict is approved, of status \<open>rejected\<close>
  without them when it is not. The endpoint misses one case of a verdict that is not
  approved. \<open>json.loads\<close> returns whatever JSON value the backend wrote, and a value that
  is not an object has no \<open>get\<close>: for the answer \<open>[]\<close> line 166 raises
  \<open>AttributeError\<close>, which nothing handles, and no response of status \<open>rejected\<close> is
  built, although the function is declared to return a dictionary and turns every other
  unusable answer of the backend into a rejection.
\<close>

theorem non_dictionary_answer_unhandled:
  "fst (audit_contract (demo_lib (Some sk_test) (fixed_backend (ascii ''[]''))) (req_good doc_ok)) =
     Inl (Unhandled (Exn ''AttributeError'' (ascii ''object has no attribute get'')))"
proof -
  let ?L = "demo_lib (Some sk_test) (fixed_backend (ascii ''[]''))"
  have k: "OPENAI_API_KEY ?L = Some sk_test" by (simp add: demo_lib_sel)
  have c: "clean_markdown (ascii ''[]'') = ascii ''[]''"
    by (simp add: clean_markdown_def py_strip_def py_isspace_def ascii_def
      py_startswith_def fence_def Let_def)
  have "fst (ai_try_body ?L sk_test doc_ok) = Inr (JArr [])"
    by (simp add: ai_try_body_result demo_lib_sel fixed_backend_def content_or_default_def c
        demo_json_loads_def) (simp add: ascii_def)
  then have a: "analyze_legal_document ?L (document_content (req_good doc_ok)) =
      (Inr (JArr []), [Call_chat_create sk_test (ai_messages doc_ok)])"
    by (simp add: analyze_ai [OF k sk_test_configured] req_good_def)
  show ?thesis
    by (simp add: audit_contract_passed [OF good_listed good_verify a] outcome_assembly_def
        py_get_def)
qed

text \<open>
  C10. For a request that reaches the assembly with a dictionary as analysis, a response of
  status \<open>success\<close> means that the dictionary maps \<open>approved\<close> to the boolean \<open>True\<close>
  itself; when the key is missing or maps to anything else (the text \<open>true\<close>, the number
  1), the response is the one of status \<open>rejected\<close>.
\<close>

theorem success_only_for_true:
  assumes "whitelisted L (wallet_address body)"
    and "verify_signature L (wallet_address body) (signature body) (document_content body) = Inr True"
    and "analyze_legal_document L (document_content body) = (Inr (JObj kv), tr)"
  shows "(\<forall>resp. fst (audit_contract L body) = Inr (JObj resp) \<and>
                 map_of resp (ascii ''status'') = Some (JStr (ascii ''success'')) \<longrightarrow>
                 map_of kv (ascii ''approved'') = Some (JBool True)) \<and>
         (map_of kv (ascii ''approved'') \<noteq> Some (JBool True) \<longrightarrow>
            fst (audit_contract L body) =
              Inr (JObj [(ascii ''status'', JStr (ascii ''rejected'')),
                         (ascii ''audit_result'', JObj kv)]))"
  by (auto simp add: audit_contract_passed [OF assms] outcome_assembly_obj ascii_def
      split: sum.splits if_splits)

theorem success_only_for_true_witness:
  "fst (audit_contract (demo_lib (Some sk_test) (fixed_backend fenced_answer)) (req_good doc_ok)) =
     Inr (JObj [(ascii ''status'', JStr (ascii ''rejected'')),
                (ascii ''audit_result'', JObj [(ascii ''approved'', JInt 1)])])"
proof -
  have m: "map_of [(ascii ''approved'', JInt 1)] (ascii ''approved'') \<noteq> Some (JBool True)"
    by simp
  note t = success_only_for_true [OF good_listed good_verify analyze_fenced]
  from t [THEN conjunct2, rule_format, OF m] show ?thesis .
qed

subsection \<open>The AI-backed analyzer\<close>

text \<open>
  C6. With an API key configured, when the call of the backend raises, or the response has
  no choice, or the cleaned content of its first choice is not JSON (\<open>json.loads\<close>
  raises), the analyzer raises nothing: it returns the dictionary with \<open>approved\<close> equal
  to \<open>False\<close> and \<open>error\<close> equal to the text of the exception. Every request with this
  document that passes both gates then gets the response of status \<open>rejected\<close>.
\<close>

theorem backend_failure_rejected:
  assumes "OPENAI_API_KEY L = Some k" and "api_key_configured (Some k)"
    and "chat_create L k (ai_messages text) = Inl e \<or>
         (chat_create L k (ai_messages text) = Inr [] \<and>
            e = Exn ''IndexError'' (ascii ''list index out of range'')) \<or>
         (\<exists>c cs. chat_create L k (ai_messages text) = Inr (c # cs) \<and>
            json_loads L (clean_markdown (content_or_default c)) = Inl e)"
  shows "fst (analyze_legal_document L text) =
           Inr (JObj [(ascii ''approved'', JBool False), (ascii ''error'', JStr (exn_str e))]) \<and>
         (\<forall>body. document_content body = text \<and> whitelisted L (wallet_address body) \<and>
            verify_signature L (wallet_address body) (signature body) text = Inr True \<longrightarrow>
            fst (audit_contract L body) =
              Inr (JObj [(ascii ''status'', JStr (ascii ''rejected'')),
                         (ascii ''audit_result'',
                          JObj [(ascii ''approved'', JBool False),
                                (ascii ''error'', JStr (exn_str e))])]))"
proof -
  from assms(3) have t: "fst (ai_try_body L k text) = Inl e"
    by (auto simp add: ai_try_body_result)
  then have a: "analyze_legal_document L text =
      (Inr (JObj [(ascii ''approved'', JBool False), (ascii ''error'', JStr (exn_str e))]),
       [Call_chat_create k (ai_messages text)])"
    by (simp add: analyze_ai [OF assms(1,2)] ai_fallback_def)
  have "fst (audit_contract L body) =
              Inr (JObj [(ascii ''status'', JStr (ascii ''rejected'')),
                         (ascii ''audit_result'',
                          JObj [(ascii ''approved'', JBool False),
                                (ascii ''error'', JStr (exn_str e))])])"
    if "document_content body = text" "whitelisted L (wallet_address body)"
      "verify_signature L (wallet_address body) (signature body) text = Inr True" for body
  proof -
    from that a have
      "analyze_legal_document L (document_content body) =
      (Inr (JObj [(ascii ''approved'', JBool False), (ascii ''error'', JStr (exn_str e))]),
       [Call_chat_create k (ai_messages text)])" by simp
    from audit_contract_passed [OF that(2) _ this] that show ?thesis
      by (simp add: outcome_assembly_obj ascii_def)
  qed
  with a show ?thesis by simp
qed

theorem backend_failure_rejected_witness:
  "fst (analyze_legal_document (demo_lib (Some sk_test) no_backend) doc_ok) =
     Inr (JObj [(ascii ''approved'', JBool False),
                (ascii ''error'', JStr (ascii ''Connection error.''))]) \<and>
   fst (audit_contract (demo_lib (Some sk_test) no_backend) (req_good doc_ok)) =
     Inr (JObj [(ascii ''status'', JStr (ascii ''rejected'')),
                (ascii ''audit_result'',
                 JObj [(ascii ''approved'', JBool False),
                       (ascii ''error'', JStr (ascii ''Connection error.''))])])"
proof -
  let ?L = "demo_lib (Some sk_test) no_backend"
  let ?e = "Exn ''APIConnectionError'' (ascii ''Connection error.'')"
  have k: "OPENAI_API_KEY ?L = Some sk_test" by (simp add: demo_lib_sel)
  have f: "chat_create ?L sk_test (ai_messages doc_ok) = Inl ?e \<or>
         (chat_create ?L sk_test (ai_messages doc_ok) = Inr [] \<and>
            ?e = Exn ''IndexError'' (ascii ''list index out of range'')) \<or>
         (\<exists>c cs. chat_create ?L sk_test (ai_messages doc_ok) = Inr (c # cs) \<and>
            json_loads ?L (clean_markdown (content_or_default c)) = Inl ?e)"
    by (simp add: demo_lib_sel no_backend_def)
  have g: "document_content (req_good doc_ok) = doc_ok \<and>
      whitelisted ?L (wallet_address (req_good doc_ok)) \<and>
      verify_signature ?L (wallet_address (req_good doc_ok)) (signature (req_good doc_ok)) doc_ok
        = Inr True"
    using good_listed [of "Some sk_test" no_backend doc_ok]
      good_verify [of "Some sk_test" no_backend doc_ok]
    by (simp add: req_good_def)
  note t = backend_failure_rejected [OF k sk_test_configured f]
  from t [THEN conjunct1] t [THEN conjunct2, rule_format, OF g]
  show ?thesis by simp
qed

text \<open>
  C9. With an API key configured the analyzer makes one call of the backend, with the
  system prompt and, as user message, the first 12000 code points of the text, and its
  result is made of the answer to that call. The backend is asked nothing else: any
  backend that gives the same answer to these messages gives the same analysis. A longer
  text is not refused: the analysis of a text is that of its first 12000 code points.
\<close>

theorem ai_input_truncated:
  assumes "OPENAI_API_KEY L = Some k" and "api_key_configured (Some k)"
  shows "analyze_legal_document L text =
           ((case chat_create L k [(ascii ''system'', RWA_AUDITOR_SYSTEM_PROMPT),
                                   (ascii ''user'', take 12000 text)] of
               Inl e \<Rightarrow> Inr (ai_fallback e)
             | Inr [] \<Rightarrow> Inr (ai_fallback (Exn ''IndexError'' (ascii ''list index out of range'')))
             | Inr (c # cs) \<Rightarrow>
                 (case json_loads L (clean_markdown (content_or_default c)) of
                    Inl e \<Rightarrow> Inr (ai_fallback e)
                  | Inr v \<Rightarrow> Inr v)),
            [Call_chat_create k [(ascii ''system'', RWA_AUDITOR_SYSTEM_PROMPT),
                                 (ascii ''user'', take 12000 text)]]) \<and>
         (\<forall>B. B k [(ascii ''system'', RWA_AUDITOR_SYSTEM_PROMPT), (ascii ''user'', take 12000 text)] =
                chat_create L k [(ascii ''system'', RWA_AUDITOR_SYSTEM_PROMPT),
                                 (ascii ''user'', take 12000 text)] \<longrightarrow>
              analyze_legal_document (L\<lparr>chat_create := B\<rparr>) text =
                analyze_legal_document L text) \<and>
         analyze_legal_document L text = analyze_legal_document L (take 12000 text)"
proof -
  have a: "analyze_legal_document M t =
           ((case chat_create M k (ai_messages t) of
               Inl e \<Rightarrow> Inr (ai_fallback e)
             | Inr [] \<Rightarrow> Inr (ai_fallback (Exn ''IndexError'' (ascii ''list index out of range'')))
             | Inr (c # cs) \<Rightarrow>
                 (case json_loads M (clean_markdown (content_or_default c)) of
                    Inl e \<Rightarrow> Inr (ai_fallback e)
                  | Inr v \<Rightarrow> Inr v)),
            [Call_chat_create k (ai_messages t)])"
    if "OPENAI_API_KEY M = Some k" for M :: "'a pylib" and t
    using that assms(2)
    by (simp add: analyze_ai ai_try_body_result split: sum.splits list.splits)
  have m: "ai_messages (take 12000 text) = ai_messages text"
    by (simp add: ai_messages_def)
  have u: "OPENAI_API_KEY (L\<lparr>chat_create := B\<rparr>) = Some k" for B
    using assms(1) by simp
  have c1: "analyze_legal_document L text =
           ((case chat_create L k [(ascii ''system'', RWA_AUDITOR_SYSTEM_PROMPT),
                                   (ascii ''user'', take 12000 text)] of
               Inl e \<Rightarrow> Inr (ai_fallback e)
             | Inr [] \<Rightarrow> Inr (ai_fallback (Exn ''IndexError'' (ascii ''list index out of range'')))
             | Inr (c # cs) \<Rightarrow>
                 (case json_loads L (clean_markdown (content_or_default c)) of
                    Inl e \<Rightarrow> Inr (ai_fallback e)
                  | Inr v \<Rightarrow> Inr v)),
            [Call_chat_create k [(ascii ''system'', RWA_AUDITOR_SYSTEM_PROMPT),
                                 (ascii ''user'', take 12000 text)]])"
    using a [OF assms(1), of "text"] by (simp add: ai_messages_def)
  have c2: "analyze_legal_document (L\<lparr>chat_create := B\<rparr>) text =
              analyze_legal_document L text"
    if "B k [(ascii ''system'', RWA_AUDITOR_SYSTEM_PROMPT), (ascii ''user'', take 12000 text)] =
          chat_create L k [(ascii ''system'', RWA_AUDITOR_SYSTEM_PROMPT),
                           (ascii ''user'', take 12000 text)]" for B
  proof -
    have "chat_create (L\<lparr>chat_create := B\<rparr>) k (ai_messages text) =
        chat_create L k (ai_messages text)"
      using that by (simp add: ai_messages_def)
    then show ?thesis
      by (simp add: a [OF u] a [OF assms(1)] split: sum.splits list.splits)
  qed
  have c3: "analyze_legal_document L text = analyze_legal_document L (take 12000 text)"
    by (simp add: a [OF assms(1)] m)
  from c1 c2 c3 show ?thesis by blast
qed

theorem ai_input_truncated_witness:
  "analyze_legal_document (demo_lib (Some sk_test) echo_backend) long_text =
     (Inr (JObj [(ascii ''approved'', JBool True)]),
      [Call_chat_create sk_test [(ascii ''system'', RWA_AUDITOR_SYSTEM_PROMPT),
                                 (ascii ''user'', replicate 12000 97)]])"
proof -
  let ?L = "demo_lib (Some sk_test) echo_backend"
  have e: "chat_create ?L sk_test [(ascii ''system'', RWA_AUDITOR_SYSTEM_PROMPT),
                                   (ascii ''user'', replicate 12000 97)] =
             Inr [Some approved_true_json]"
    by (simp add: demo_lib_sel echo_backend_def)
  have j: "json_loads ?L (clean_markdown (content_or_default (Some approved_true_json))) =
             Inr (JObj [(ascii ''approved'', JBool True)])"
    by (simp add: demo_lib_sel content_or_default_def approved_true_nonempty clean_approved_true
        loads_approved_true)
  from ai_input_truncated [OF sk_configured_echo sk_test_configured, of long_text, THEN conjunct1]
  show ?thesis by (simp only: take_long_text e j sum.case list.case)
qed

subsection \<open>HTTP errors\<close>

text \<open>
  C8, as the specification states it, gives the message \<open>wallet not authorized\<close> to the
  status 403. The detail the endpoint raises for a wallet outside the whitelist is another
  text.
\<close>

theorem http_message_counterexample:
  "fst (audit_contract (demo_lib None no_backend) req_stranger) =
     Inl (HTTPException 403 DETAIL_403) \<and>
   DETAIL_403 \<noteq> ascii ''wallet not authorized''"
  using stranger_not_listed [of None no_backend]
  by (simp add: audit_contract_def Let_def DETAIL_403_def ascii_def)

text \<open>
  C8, amended. A wallet outside the whitelist gets the HTTP exception of status 403 with
  the detail \<open>Wallet no autorizada en la whitelist de validadores legales\<close>; a whitelisted
  wallet with a signature that does not verify gets the one of status 401 with the detail
  \<open>Firma invalida: no coincide con la wallet o el contenido del documento\<close> (with an
  acute accent on the second a of \<open>invalida\<close>, code point 225); and every HTTP exception \<open>audit_contract\<close>
  raises is one of these two.
\<close>

theorem http_errors:
  "(\<not> whitelisted L (wallet_address body) \<longrightarrow>
      fst (audit_contract L body) =
        Inl (HTTPException 403
          (ascii ''Wallet no autorizada en la whitelist de validadores legales''))) \<and>
   (whitelisted L (wallet_address body) \<and>
    verify_signature L (wallet_address body) (signature body) (document_content body) \<noteq> Inr True
      \<longrightarrow> fst (audit_contract L body) =
        Inl (HTTPException 401
          (ascii ''Firma inv'' @ [225] @
           ascii ''lida: no coincide con la wallet o el contenido del documento''))) \<and>
   (\<forall>code detail. fst (audit_contract L body) = Inl (HTTPException code detail) \<longrightarrow>
      (code = 403 \<and> detail = DETAIL_403 \<and> \<not> whitelisted L (wallet_address body)) \<or>
      (code = 401 \<and> detail = DETAIL_401 \<and> whitelisted L (wallet_address body) \<and>
       verify_signature L (wallet_address body) (signature body) (document_content body)
         = Inr False))"
proof -
  obtain b where b:
    "verify_signature L (wallet_address body) (signature body) (document_content body) = Inr b"
    using verify_signature_returns by blast
  obtain r tr where r: "analyze_legal_document L (document_content body) = (r, tr)"
    by (cases "analyze_legal_document L (document_content body)")
  show ?thesis
    using b r outcome_assembly_no_http [of L body]
    by (cases r) (auto simp add: audit_contract_def Let_def whitelisted_def DETAIL_403_def DETAIL_401_def)
qed

theorem http_errors_witness:
  "fst (audit_contract (demo_lib None no_backend) req_stranger) =
     Inl (HTTPException 403
       (ascii ''Wallet no autorizada en la whitelist de validadores legales'')) \<and>
   fst (audit_contract (demo_lib None no_backend) req_tampered) =
     Inl (HTTPException 401
       (ascii ''Firma inv'' @ [225] @
        ascii ''lida: no coincide con la wallet o el contenido del documento''))"
proof -
  let ?L = "demo_lib None no_backend"
  have s: "\<not> whitelisted ?L (wallet_address req_stranger)"
    using stranger_not_listed [of None no_backend] by (simp add: whitelisted_def)
  have t: "whitelisted ?L (wallet_address req_tampered) \<and>
      verify_signature ?L (wallet_address req_tampered) (signature req_tampered)
        (document_content req_tampered) \<noteq> Inr True"
    using tampered_listed [of None no_backend] tampered_verify [of None no_backend]
    by (simp add: whitelisted_def)
  from http_errors [of ?L req_stranger, THEN conjunct1, rule_format, OF s]
    http_errors [of ?L req_tampered, THEN conjunct2, THEN conjunct1, rule_format, OF t]
  show ?thesis by (rule conjI)
qed

subsection \<open>Code fences\<close>

text \<open>
  C7, as the specification states it, has every line that is only a code fence stripped
  before the text is parsed. An answer that does not start with a fence is left as it is,
  so that a line that is only a fence stays in the text handed to the parser.
\<close>

theorem fence_line_kept_counterexample:
  "clean_markdown unfenced_answer = unfenced_answer \<and>
   ascii ''```'' \<in> set (py_split 10 (clean_markdown unfenced_answer))"
  by (simp add: clean_markdown_def unfenced_answer_def py_strip_def py_isspace_def ascii_def
      py_startswith_def fence_def Let_def)

text \<open>
  C7, amended. The analyzer strips the white space at both ends of the answer. When the
  result does not start with a code fence, it is parsed as it is. When it starts with one,
  the lines of the cleaned text are exactly the lines of the stripped answer that do not
  start with a fence once stripped themselves, unchanged and in their order; when no line
  is left the cleaned text is empty.
\<close>

theorem clean_markdown_lines:
  "(\<not> py_startswith (py_strip c) fence \<longrightarrow> clean_markdown c = py_strip c) \<and>
   (py_startswith (py_strip c) fence \<longrightarrow>
      (kept_lines c \<noteq> [] \<longrightarrow> py_split 10 (clean_markdown c) = kept_lines c) \<and>
      (kept_lines c = [] \<longrightarrow> clean_markdown c = []))"
proof -
  have "\<forall>l \<in> set (kept_lines c). 10 \<notin> set l"
    using py_split_no_sep [of _ 10 "py_strip c"] by (auto simp add: kept_lines_def)
  then have "kept_lines c \<noteq> [] \<longrightarrow> py_split 10 (py_join 10 (kept_lines c)) = kept_lines c"
    using py_split_join [of "kept_lines c" 10] by blast
  moreover have "py_startswith (py_strip c) fence \<longrightarrow>
      clean_markdown c = py_join 10 (kept_lines c)"
    by (simp add: clean_markdown_def kept_lines_def Let_def)
  moreover have "\<not> py_startswith (py_strip c) fence \<longrightarrow> clean_markdown c = py_strip c"
    by (simp add: clean_markdown_def Let_def)
  ultimately show ?thesis by auto
qed

theorem clean_markdown_lines_witness:
  "py_startswith (py_strip fenced_answer) fence \<and>
   py_split 10 (clean_markdown fenced_answer) =
     [ascii ''{'' @ [34] @ ascii ''approved'' @ [34] @ ascii '': 1}'']"
proof -
  have n: "kept_lines fenced_answer \<noteq> []" by (simp add: fenced_kept)
  from clean_markdown_lines [of fenced_answer, THEN conjunct2, rule_format, OF fenced_starts,
      THEN conjunct1, rule_format, OF n]
  show ?thesis by (simp add: fenced_starts fenced_kept)
qed

end
